theory Spec2Isabelle
  imports Main
begin

section \<open>Python values and string primitives\<close>

text \<open>
  The retriever is a Python program. Its pure core builds file names and URLs from
  strings read from a YAML document and from the command line. Strings are modelled as
  \<^typ>\<open>string\<close>, Python's unbounded integers as \<^typ>\<open>int\<close>, and every exception the
  code can raise is a value of \<open>py_error\<close> on the left of a sum.
\<close>

datatype py_error = KeyError | ValueError | RequestException | OSError

text \<open>
  A YAML scalar as the code uses it: \<open>year\<close>, \<open>vol\<close>, \<open>size\<close> and
  \<open>rotation_degrees\<close> are only tested for truth and formatted with \<open>str\<close>.
\<close>

datatype pyval = PyNone | PyInt int | PyStr string

fun truthy :: "pyval \<Rightarrow> bool" where
  "truthy PyNone = False"
| "truthy (PyInt i) = (i \<noteq> 0)"
| "truthy (PyStr s) = (s \<noteq> [])"

text \<open>Truth of an optional string argument (\<open>None\<close> and \<open>''\<close> are falsy).\<close>

fun truthy_str :: "string option \<Rightarrow> bool" where
  "truthy_str None = False"
| "truthy_str (Some s) = (s \<noteq> [])"

definition digit_char :: "nat \<Rightarrow> char" where
  "digit_char d = ''0123456789'' ! d"

fun str_nat :: "nat \<Rightarrow> string" where
  "str_nat n = (if n < 10 then [digit_char n] else str_nat (n div 10) @ [digit_char (n mod 10)])"

declare str_nat.simps [simp del]

definition str_int :: "int \<Rightarrow> string" where
  "str_int i = (if i < 0 then CHR ''-'' # str_nat (nat (- i)) else str_nat (nat i))"

text \<open>\<open>str(x)\<close>, which is also what an f-string placeholder \<open>{x}\<close> produces.\<close>

fun py_str :: "pyval \<Rightarrow> string" where
  "py_str PyNone = ''None''"
| "py_str (PyInt i) = str_int i"
| "py_str (PyStr s) = s"

text \<open>\<open>sep.join(xs)\<close>\<close>

fun join :: "string \<Rightarrow> string list \<Rightarrow> string" where
  "join sep [] = []"
| "join sep [x] = x"
| "join sep (x # y # ys) = x @ sep @ join sep (y # ys)"

text \<open>\<open>s.split(sep)\<close> for a one-character separator: never empty, keeps empty fields.\<close>

fun split :: "char \<Rightarrow> string \<Rightarrow> string list" where
  "split sep [] = [[]]"
| "split sep (c # cs) =
     (if c = sep then [] # split sep cs
      else (let r = split sep cs in (c # hd r) # tl r))"

text \<open>\<open>s.replace(a, b)\<close> for one-character \<open>a\<close> and \<open>b\<close>.\<close>

definition replace :: "string \<Rightarrow> char \<Rightarrow> char \<Rightarrow> string" where
  "replace s a b = map (\<lambda>c. if c = a then b else c) s"

text \<open>
  \<open>s.zfill(width)\<close>: a string at least \<open>width\<close> long is returned as it is; otherwise
  zeros are inserted, after a leading sign character if there is one.
\<close>

definition zfill :: "string \<Rightarrow> int \<Rightarrow> string" where
  "zfill s width =
     (if width \<le> int (length s) then s
      else (let fill = replicate (nat width - length s) CHR ''0'' in
        (case s of
           [] \<Rightarrow> fill
         | c # rest \<Rightarrow> if c = CHR ''+'' \<or> c = CHR ''-'' then c # fill @ rest else fill @ s)))"

text \<open>\<open>s.rfind(c)\<close>: the highest index of \<open>c\<close> in \<open>s\<close>, or \<open>-1\<close>.\<close>

definition rfind :: "string \<Rightarrow> char \<Rightarrow> int" where
  "rfind s c =
     (if c \<in> set s then int (length s) - 1 - int (length (takeWhile (\<lambda>x. x \<noteq> c) (rev s)))
      else - 1)"

section \<open>pathlib: pure POSIX paths\<close>

text \<open>
  \<open>create_filename\<close> and \<open>create_filepath\<close> return \<open>pathlib.Path\<close> objects. A
  pure POSIX path is a root (\<open>''\<close>, \<open>/\<close> or \<open>//\<close>) and a list of components. The
  constructor drops empty components and \<open>.\<close> components; \<open>with_suffix\<close> replaces
  the suffix of the final component, and raises \<open>ValueError\<close> on an empty name or an
  invalid suffix. This is pathlib on a POSIX system, where \<open>/\<close> is the only
  separator.
\<close>

datatype path = PurePath (path_root: string) (path_parts: "string list")

definition splitroot :: "string \<Rightarrow> string \<times> string" where
  "splitroot p =
     (if p \<noteq> [] \<and> hd p = CHR ''/'' then
        (let stripped = dropWhile (\<lambda>c. c = CHR ''/'') p in
           if length p - length stripped = 2 then (''//'', stripped) else (''/'', stripped))
      else ([], p))"

text \<open>\<open>Path(s)\<close> for one string argument.\<close>

definition Path :: "string \<Rightarrow> path" where
  "Path s =
     (case splitroot s of (rt, rel) \<Rightarrow>
        PurePath rt (filter (\<lambda>x. x \<noteq> [] \<and> x \<noteq> ''.'') (split CHR ''/'' rel)))"

text \<open>\<open>Path(p, q)\<close> for two paths: an absolute \<open>q\<close> discards \<open>p\<close>.\<close>

definition joinpath :: "path \<Rightarrow> path \<Rightarrow> path" where
  "joinpath p q =
     (if path_root q \<noteq> [] then q else PurePath (path_root p) (path_parts p @ path_parts q))"

text \<open>\<open>str(p)\<close>\<close>

definition path_str :: "path \<Rightarrow> string" where
  "path_str p =
     (let s = path_root p @ join ''/'' (path_parts p) in if s = [] then ''.'' else s)"

text \<open>\<open>p.name\<close>: the final component, empty when there is none.\<close>

definition path_name :: "path \<Rightarrow> string" where
  "path_name p = (if path_parts p = [] then [] else last (path_parts p))"

text \<open>\<open>p.is_absolute()\<close>\<close>

definition is_absolute :: "path \<Rightarrow> bool" where
  "is_absolute p = (path_root p \<noteq> [])"

text \<open>\<open>p.suffix\<close>: the text from the last dot of the name, unless that dot is first or last.\<close>

definition path_suffix :: "path \<Rightarrow> string" where
  "path_suffix p =
     (let nm = path_name p; i = rfind nm CHR ''.'' in
        if 0 < i \<and> i < int (length nm) - 1 then drop (nat i) nm else [])"

definition with_suffix :: "path \<Rightarrow> string \<Rightarrow> py_error + path" where
  "with_suffix p suffix =
     (if CHR ''/'' \<in> set suffix then Inl ValueError
      else if (suffix \<noteq> [] \<and> hd suffix \<noteq> CHR ''.'') \<or> suffix = ''.'' then Inl ValueError
      else (let nm = path_name p in
        if nm = [] then Inl ValueError
        else (let old_suffix = path_suffix p;
                  nm' = (if old_suffix = [] then nm @ suffix
                         else take (length nm - length old_suffix) nm @ suffix)
              in Inr (PurePath (path_root p) (butlast (path_parts p) @ [nm'])))))"

section \<open>The Filename Builder\<close>

text \<open>
  The \<open>filename_segments\<close> entry of a collection: the literal name parts, a year and a
  volume (either may be null). The three keys are fields of a record, so they are always
  there.
\<close>

record filename_segments =
  name :: "string list"
  year :: pyval
  vol :: pyval

text \<open>The padding of the number: \<open>if len(num) < 4: num = num.zfill(4)\<close>.\<close>

definition pad :: "string \<Rightarrow> string" where
  "pad num = (if length num < 4 then zfill num 4 else num)"

text \<open>
  The list \<open>segments\<close> of \<open>create_filename\<close> as it stands at the \<open>return\<close>
  that is taken: name, year and volume; for a format other than \<open>log\<close> the volume once
  more, the part and the number, padded to four characters when it is shorter. The part
  and the number are read with \<open>the\<close> only under the truth test that makes them
  \<open>Some\<close>. The parameter \<open>format\<close> of the source is written \<open>fmt\<close>, the
  name \<open>format\<close> being the option of the parser below.
\<close>

definition segments :: "filename_segments \<Rightarrow> string option \<Rightarrow> string option \<Rightarrow> string \<Rightarrow> string list" where
  "segments name_segments part num fmt =
     (let segs = name name_segments;
          segs = (if truthy (year name_segments)
                  then segs @ [py_str (year name_segments)] else segs);
          segs = (if truthy (vol name_segments)
                  then segs @ [''vol_'' @ py_str (vol name_segments)] else segs)
      in if fmt = ''log'' then segs
         else (let segs = (if truthy (vol name_segments)
                           then segs @ [''vol_'' @ py_str (vol name_segments)] else segs);
                   segs = (if truthy_str part then segs @ [the part] else segs);
                   segs = (if truthy_str num then segs @ [pad (the num)] else segs)
               in segs))"

definition create_filename :: "filename_segments \<Rightarrow> string option \<Rightarrow> string option \<Rightarrow> string \<Rightarrow> py_error + path" where
  "create_filename name_segments part num fmt =
     with_suffix (Path (join ''-'' (segments name_segments part num fmt))) (''.'' @ fmt)"

section \<open>The Path Resolver\<close>

text \<open>
  \<open>Path(Path.cwd(), output_path, filename)\<close>. The working directory is read from the
  process, so it is a parameter here; \<open>output_path\<close> is a string, \<open>filename\<close> the
  path returned by \<open>create_filename\<close>.
\<close>

definition create_filepath :: "path \<Rightarrow> string \<Rightarrow> path \<Rightarrow> path" where
  "create_filepath cwd output_path filename = joinpath (joinpath cwd (Path output_path)) filename"

section \<open>The URL Builder\<close>

text \<open>
  The command-line options the core reads (\<open>output\<close> and \<open>size\<close> carry the
  suffix \<open>_arg\<close>, the plain names being taken), and the run configuration.
\<close>

record parser =
  output_arg :: string
  format :: string
  region :: string
  size_arg :: pyval
  rotation_degrees :: pyval
  quality :: string

record config =
  protocol :: string
  subdomain :: string
  domain :: string
  service_path :: "string \<rightharpoonup> string"

text \<open>
  Both branches join a list of formatted pieces with the empty string. The configuration
  is a record, so protocol, subdomain and domain are always there; the service-path
  mapping is a partial map, and \<open>config['service_path'][parser.format]\<close> raises
  \<open>KeyError\<close> for a format that is not in it.
\<close>

definition create_url :: "parser \<Rightarrow> config \<Rightarrow> string \<Rightarrow> string \<Rightarrow> string \<Rightarrow> py_error + string" where
  "create_url parser config gmd id_prefix num =
     (if format parser \<in> set [''gif'', ''jp2'', ''tif''] then
        (case service_path config (format parser) of
           None \<Rightarrow> Inl KeyError
         | Some sp \<Rightarrow> Inr (concat [
             protocol config,
             ''://'' @ subdomain config,
             ''.'' @ domain config,
             ''/'' @ sp,
             ''/'' @ replace gmd CHR '':'' CHR ''/'',
             ''/'' @ id_prefix @ num,
             ''.'' @ format parser]))
      else
        (case service_path config (format parser) of
           None \<Rightarrow> Inl KeyError
         | Some sp \<Rightarrow> Inr (concat [
             protocol config,
             ''://'' @ subdomain config,
             ''.'' @ domain config,
             ''/'' @ sp,
             '':'' @ gmd,
             '':'' @ id_prefix @ num,
             ''/'' @ region parser,
             ''/pct:'' @ py_str (size_arg parser),
             ''/'' @ py_str (rotation_degrees parser),
             ''/'' @ quality parser,
             ''.'' @ format parser])))"

section \<open>The Retrieval Loop\<close>

text \<open>
  The loop of \<open>main\<close> talks to two collaborators: \<open>requests.get\<close>, which either
  raises or returns a response with a status code and a body, and
  \<open>write_file_response_chunked\<close>, which either raises or returns nothing. What the
  loop does to the outside world is recorded as a trace of events, in order. The keys
  of a path segment carry the prefix \<open>seg_\<close>, their plain names being the parameters
  of \<open>create_url\<close> and \<open>create_filename\<close>.
\<close>

record response =
  status_code :: int
  content :: string

record index_range =
  start :: int
  stop :: int
  zfill_width :: int

record path_segment =
  seg_gmd :: string
  seg_id_prefix :: string
  seg_part :: "string option"
  seg_index :: index_range

record collaborators =
  get :: "string \<Rightarrow> py_error + response"
  write_file_response_chunked :: "path \<Rightarrow> response \<Rightarrow> py_error option"

datatype event = Get string | Info string | Write path response

text \<open>\<open>range(start, stop, 1)\<close>\<close>

definition py_range :: "int \<Rightarrow> int \<Rightarrow> int list" where
  "py_range a b = [a..b - 1]"

text \<open>The index token: \<open>str(i)\<close>, zero-filled when the configured width is positive.\<close>

definition index_token :: "path_segment \<Rightarrow> int \<Rightarrow> string" where
  "index_token ps i =
     (let num = str_int i in
        if zfill_width (seg_index ps) > 0 then zfill num (zfill_width (seg_index ps)) else num)"

text \<open>
  One pass through the body of the inner loop. The result is the trace so far and the
  exception that ended the pass, if any. Nothing in the body reads \<open>status_code\<close>.
\<close>

definition retrieve_one ::
  "collaborators \<Rightarrow> path \<Rightarrow> parser \<Rightarrow> config \<Rightarrow> filename_segments \<Rightarrow> path_segment \<Rightarrow> int \<Rightarrow>
   event list \<Rightarrow> event list \<times> py_error option" where
  "retrieve_one io cwd parser config fsegs ps i tr =
     (let num = index_token ps i in
      case create_url parser config (seg_gmd ps) (seg_id_prefix ps) num of
        Inl e \<Rightarrow> (tr, Some e)
      | Inr url \<Rightarrow>
          (case get io url of
             Inl e \<Rightarrow> (tr @ [Get url], Some e)
           | Inr resp \<Rightarrow>
               (let tr1 = tr @ [Get url, Info (''Target URL: '' @ url)] in
                case create_filename fsegs (seg_part ps) (Some num) (format parser) of
                  Inl e \<Rightarrow> (tr1, Some e)
                | Inr filename \<Rightarrow>
                    (let filepath = create_filepath cwd (output_arg parser) filename;
                         tr2 = tr1 @ [Info (''Image renamed to '' @ path_name filepath),
                                      Write filepath resp]
                     in (tr2, write_file_response_chunked io filepath resp)))))"

text \<open>The inner loop over the indices of one path segment: an exception ends it.\<close>

fun retrieve_indices ::
  "collaborators \<Rightarrow> path \<Rightarrow> parser \<Rightarrow> config \<Rightarrow> filename_segments \<Rightarrow> path_segment \<Rightarrow> int list \<Rightarrow>
   event list \<Rightarrow> event list \<times> py_error option" where
  "retrieve_indices io cwd parser config fsegs ps [] tr = (tr, None)"
| "retrieve_indices io cwd parser config fsegs ps (i # rest) tr =
     (case retrieve_one io cwd parser config fsegs ps i tr of
        (tr', Some e) \<Rightarrow> (tr', Some e)
      | (tr', None) \<Rightarrow> retrieve_indices io cwd parser config fsegs ps rest tr')"

text \<open>The outer loop over the path segments of the collection.\<close>

fun retrieve_files ::
  "collaborators \<Rightarrow> path \<Rightarrow> parser \<Rightarrow> config \<Rightarrow> filename_segments \<Rightarrow> path_segment list \<Rightarrow>
   event list \<Rightarrow> event list \<times> py_error option" where
  "retrieve_files io cwd parser config fsegs [] tr = (tr, None)"
| "retrieve_files io cwd parser config fsegs (ps # rest) tr =
     (case retrieve_indices io cwd parser config fsegs ps
             (py_range (start (seg_index ps)) (stop (seg_index ps))) tr of
        (tr', Some e) \<Rightarrow> (tr', Some e)
      | (tr', None) \<Rightarrow> retrieve_files io cwd parser config fsegs rest tr')"

section \<open>Notions used to state the properties\<close>

text \<open>A text without a slash and without a dot.\<close>

definition plain :: "string \<Rightarrow> bool" where
  "plain s = (CHR ''/'' \<notin> set s \<and> CHR ''.'' \<notin> set s)"

text \<open>All the texts that \<open>create_filename\<close> may put into the name are plain.\<close>

definition plain_inputs :: "filename_segments \<Rightarrow> string option \<Rightarrow> string option \<Rightarrow> bool" where
  "plain_inputs name_segments part num =
     (list_all plain (name name_segments) \<and>
      plain (py_str (year name_segments)) \<and>
      plain (py_str (vol name_segments)) \<and>
      (case part of None \<Rightarrow> True | Some s \<Rightarrow> plain s) \<and>
      (case num of None \<Rightarrow> True | Some s \<Rightarrow> plain s))"

text \<open>A format that \<open>with_suffix\<close> accepts after the dot: not empty, no slash.\<close>

definition valid_format :: "string \<Rightarrow> bool" where
  "valid_format fmt = (fmt \<noteq> [] \<and> CHR ''/'' \<notin> set fmt)"

text \<open>\<open>s.count(c)\<close> for a character.\<close>

definition count_char :: "char \<Rightarrow> string \<Rightarrow> nat" where
  "count_char c s = length (filter (\<lambda>x. x = c) s)"

text \<open>The number of positions of \<open>s\<close> at which \<open>tok\<close> occurs.\<close>

fun occurrences :: "string \<Rightarrow> string \<Rightarrow> nat" where
  "occurrences tok [] = (if tok = [] then 1 else 0)"
| "occurrences tok (c # cs) =
     (if take (length tok) (c # cs) = tok then 1 else 0) + occurrences tok cs"

text \<open>A success status of HTTP.\<close>

definition is_success :: "response \<Rightarrow> bool" where
  "is_success r = (200 \<le> status_code r \<and> status_code r < 300)"

section \<open>A sample run\<close>

text \<open>
  Inputs for running the loop: the options and configuration of a \<open>jpg\<close> retrieval,
  one path segment with the indices 1 and 2, a server that answers every request with
  status 404, and a network that fails on the request for index 2.
\<close>

definition sample_parser :: parser where
  "sample_parser =
     \<lparr>output_arg = ''maps'', format = ''jpg'', region = ''full'', size_arg = PyInt 100,
      rotation_degrees = PyInt 0, quality = ''default''\<rparr>"

definition sample_config :: config where
  "sample_config =
     \<lparr>protocol = ''https'', subdomain = ''tile'', domain = ''loc.gov'',
      service_path = [''jpg'' \<mapsto> ''image-services/iiif/service'']\<rparr>"

definition sample_names :: filename_segments where
  "sample_names = \<lparr>name = [''atlas''], year = PyInt 1925, vol = PyNone\<rparr>"

definition sample_segment :: path_segment where
  "sample_segment =
     \<lparr>seg_gmd = ''g3290'', seg_id_prefix = ''ct'', seg_part = None,
      seg_index = \<lparr>start = 1, stop = 3, zfill_width = 3\<rparr>\<rparr>"

definition not_found :: response where
  "not_found = \<lparr>status_code = 404, content = ''Not Found''\<rparr>"

definition server_404 :: collaborators where
  "server_404 =
     \<lparr>get = (\<lambda>url. Inr not_found), write_file_response_chunked = (\<lambda>filepath resp. None)\<rparr>"

definition network_down_at_2 :: collaborators where
  "network_down_at_2 =
     \<lparr>get = (\<lambda>url. if url = ''https://tile.loc.gov/image-services/iiif/service:g3290:ct002/full/pct:100/0/default.jpg''
                    then Inl RequestException
                    else Inr \<lparr>status_code = 200, content = ''JFIF''\<rparr>),
      write_file_response_chunked = (\<lambda>filepath resp. None)\<rparr>"

section \<open>Properties of the URL Builder\<close>

lemma count_char_append: "count_char c (xs @ ys) = count_char c xs + count_char c ys"
  by (simp add: count_char_def)

lemma count_char_Cons: "count_char c (x # xs) = (if x = c then 1 else 0) + count_char c xs"
  by (simp add: count_char_def)

lemma count_char_Nil: "count_char c [] = 0"
  by (simp add: count_char_def)

text \<open>
  C3. For a format among \<open>gif\<close>, \<open>jp2\<close> and \<open>tif\<close> whose service path is configured,
  \<open>create_url\<close> returns protocol, \<open>://\<close>, subdomain, \<open>.\<close>, domain, \<open>/\<close>, the
  service path, \<open>/\<close>, \<open>gmd\<close> with each colon replaced by a slash, \<open>/\<close>, id prefix and
  index, \<open>.\<close> and the format. No colon of \<open>gmd\<close> survives the replacement. With gmd
  \<open>g3290:g3290\<close>, id prefix \<open>ct000\<close>, index \<open>003\<close>, format \<open>tif\<close> and the
  configuration https, tile, loc.gov, service path \<open>tif\<close>, the URL is
  \<open>https://tile.loc.gov/tif/g3290/g3290/ct000003.tif\<close>.
\<close>

theorem create_url_raw_scheme:
  "(format parser \<in> {''gif'', ''jp2'', ''tif''} \<longrightarrow> service_path config (format parser) = Some sp \<longrightarrow>
      create_url parser config gmd id_prefix num =
        Inr (protocol config @ ''://'' @ subdomain config @ ''.'' @ domain config @ ''/'' @ sp @
             ''/'' @ replace gmd CHR '':'' CHR ''/'' @ ''/'' @ id_prefix @ num @ ''.'' @ format parser))
   \<and> CHR '':'' \<notin> set (replace gmd CHR '':'' CHR ''/'')
   \<and> replace ''g3290:g3290'' CHR '':'' CHR ''/'' = ''g3290/g3290''
   \<and> create_url (parser\<lparr>format := ''tif''\<rparr>)
        \<lparr>protocol = ''https'', subdomain = ''tile'', domain = ''loc.gov'', service_path = [''tif'' \<mapsto> ''tif'']\<rparr>
        ''g3290:g3290'' ''ct000'' ''003'' = Inr ''https://tile.loc.gov/tif/g3290/g3290/ct000003.tif''"
  by (auto simp: create_url_def replace_def)

theorem create_url_raw_scheme_witness:
  "format \<lparr>output_arg = ''maps'', format = ''gif'', region = ''full'', size_arg = PyInt 100,
            rotation_degrees = PyInt 0, quality = ''default''\<rparr> \<in> {''gif'', ''jp2'', ''tif''}
   \<and> service_path \<lparr>protocol = ''https'', subdomain = ''tile'', domain = ''loc.gov'',
                    service_path = [''gif'' \<mapsto> ''storage-services/service'']\<rparr> ''gif'' = Some ''storage-services/service''
   \<and> create_url \<lparr>output_arg = ''maps'', format = ''gif'', region = ''full'', size_arg = PyInt 100,
            rotation_degrees = PyInt 0, quality = ''default''\<rparr>
          \<lparr>protocol = ''https'', subdomain = ''tile'', domain = ''loc.gov'',
                    service_path = [''gif'' \<mapsto> ''storage-services/service'']\<rparr> ''gmd:gmd370'' ''ca'' ''000001''
      = Inr ''https://tile.loc.gov/storage-services/service/gmd/gmd370/ca000001.gif''"
  using create_url_raw_scheme [of "\<lparr>output_arg = ''maps'', format = ''gif'', region = ''full'', size_arg = PyInt 100,
            rotation_degrees = PyInt 0, quality = ''default''\<rparr>"
          "\<lparr>protocol = ''https'', subdomain = ''tile'', domain = ''loc.gov'',
                    service_path = [''gif'' \<mapsto> ''storage-services/service'']\<rparr>" "''storage-services/service''"
          "''gmd:gmd370''" "''ca''" "''000001''"]
  by (simp add: replace_def)

text \<open>
  C7. When the format has no entry in the service-path mapping of the configuration,
  \<open>create_url\<close> raises \<open>KeyError\<close>, in either scheme, and returns no URL.
\<close>

theorem create_url_unconfigured_format:
  "service_path config (format parser) = None \<Longrightarrow>
   create_url parser config gmd id_prefix num = Inl KeyError"
  by (simp add: create_url_def)

theorem create_url_unconfigured_format_witness:
  "service_path \<lparr>protocol = ''https'', subdomain = ''tile'', domain = ''loc.gov'',
                    service_path = [''jpg'' \<mapsto> ''image-services/iiif/service'']\<rparr>
       (format \<lparr>output_arg = ''maps'', format = ''png'', region = ''full'', size_arg = PyInt 100,
            rotation_degrees = PyInt 0, quality = ''default''\<rparr>) = None
   \<and> create_url \<lparr>output_arg = ''maps'', format = ''png'', region = ''full'', size_arg = PyInt 100,
            rotation_degrees = PyInt 0, quality = ''default''\<rparr>
        \<lparr>protocol = ''https'', subdomain = ''tile'', domain = ''loc.gov'',
                    service_path = [''jpg'' \<mapsto> ''image-services/iiif/service'']\<rparr>
        ''gmd:gmd370'' ''ca'' ''000001'' = Inl KeyError"
  using create_url_unconfigured_format [of
        "\<lparr>protocol = ''https'', subdomain = ''tile'', domain = ''loc.gov'',
                    service_path = [''jpg'' \<mapsto> ''image-services/iiif/service'']\<rparr>"
        "\<lparr>output_arg = ''maps'', format = ''png'', region = ''full'', size_arg = PyInt 100,
            rotation_degrees = PyInt 0, quality = ''default''\<rparr>" "''gmd:gmd370''" "''ca''" "''000001''"]
  by simp

text \<open>
  C4, as the code has it. For a format other than \<open>gif\<close>, \<open>jp2\<close> and \<open>tif\<close> whose
  service path is configured, \<open>create_url\<close> returns the tiled-image template. The
  template puts two colons between the host and the region segment, one before \<open>gmd\<close>
  and one before the id prefix; \<open>gmd\<close>, the id prefix, the index and the service path are
  copied as they are, so the number of colons in that stretch is two plus the number of
  colons they contain.
\<close>

theorem create_url_tiled_scheme:
  "format parser \<notin> {''gif'', ''jp2'', ''tif''} \<Longrightarrow> service_path config (format parser) = Some sp \<Longrightarrow>
   create_url parser config gmd id_prefix num =
     Inr (protocol config @ ''://'' @ subdomain config @ ''.'' @ domain config @ ''/'' @
          (sp @ '':'' @ gmd @ '':'' @ id_prefix @ num) @
          ''/'' @ region parser @ ''/pct:'' @ py_str (size_arg parser) @
          ''/'' @ py_str (rotation_degrees parser) @ ''/'' @ quality parser @ ''.'' @ format parser)
   \<and> count_char CHR '':'' (sp @ '':'' @ gmd @ '':'' @ id_prefix @ num) =
       2 + count_char CHR '':'' sp + count_char CHR '':'' gmd +
       count_char CHR '':'' id_prefix + count_char CHR '':'' num"
  by (simp add: create_url_def count_char_append count_char_Cons count_char_Nil)

theorem create_url_tiled_scheme_witness:
  "format \<lparr>output_arg = ''maps'', format = ''jpg'', region = ''full'', size_arg = PyInt 100,
            rotation_degrees = PyInt 0, quality = ''default''\<rparr> \<notin> {''gif'', ''jp2'', ''tif''}
   \<and> service_path \<lparr>protocol = ''https'', subdomain = ''tile'', domain = ''loc.gov'',
                    service_path = [''jpg'' \<mapsto> ''image-services/iiif/service'']\<rparr> ''jpg'' = Some ''image-services/iiif/service''
   \<and> create_url \<lparr>output_arg = ''maps'', format = ''jpg'', region = ''full'', size_arg = PyInt 100,
            rotation_degrees = PyInt 0, quality = ''default''\<rparr>
        \<lparr>protocol = ''https'', subdomain = ''tile'', domain = ''loc.gov'',
                    service_path = [''jpg'' \<mapsto> ''image-services/iiif/service'']\<rparr>
        ''g3290'' ''ct000'' ''003'' =
      Inr ''https://tile.loc.gov/image-services/iiif/service:g3290:ct000003/full/pct:100/0/default.jpg''
   \<and> count_char CHR '':'' ''image-services/iiif/service:g3290:ct000003'' = 2"
  using create_url_tiled_scheme [of "\<lparr>output_arg = ''maps'', format = ''jpg'', region = ''full'', size_arg = PyInt 100,
            rotation_degrees = PyInt 0, quality = ''default''\<rparr>"
        "\<lparr>protocol = ''https'', subdomain = ''tile'', domain = ''loc.gov'',
                    service_path = [''jpg'' \<mapsto> ''image-services/iiif/service'']\<rparr>"
        "''image-services/iiif/service''" "''g3290''" "''ct000''" "''003''"]
  by (simp add: str_int_def str_nat.simps digit_char_def count_char_def)

text \<open>
  C4 as stated fails when \<open>gmd\<close> contains a colon: with gmd \<open>g3290:g3290\<close> the
  stretch between the host and the region segment has three colons, and the URL up to
  the region segment four.
\<close>

theorem create_url_tiled_colons_counterexample:
  "create_url \<lparr>output_arg = ''maps'', format = ''jpg'', region = ''full'', size_arg = PyInt 100,
            rotation_degrees = PyInt 0, quality = ''default''\<rparr>
        \<lparr>protocol = ''https'', subdomain = ''tile'', domain = ''loc.gov'',
                    service_path = [''jpg'' \<mapsto> ''image-services/iiif/service'']\<rparr>
        ''g3290:g3290'' ''ct000'' ''003'' =
      Inr (''https://tile.loc.gov/'' @ ''image-services/iiif/service:g3290:g3290:ct000003'' @
           ''/full'' @ ''/pct:100/0/default.jpg'')
   \<and> count_char CHR '':'' ''image-services/iiif/service:g3290:g3290:ct000003'' = 3
   \<and> count_char CHR '':'' (''https://tile.loc.gov/'' @ ''image-services/iiif/service:g3290:g3290:ct000003'') = 4"
  by (simp add: create_url_def str_int_def str_nat.simps digit_char_def count_char_def)

section \<open>Properties of the Filename Builder\<close>

subsection \<open>Strings and paths\<close>

lemma split_no_sep: "sep \<notin> set s \<Longrightarrow> split sep s = [s]"
  by (induction s) auto

lemma Path_no_slash:
  assumes "s \<noteq> []" and "CHR ''/'' \<notin> set s" and "s \<noteq> ''.''"
  shows "Path s = PurePath [] [s]"
proof -
  from assms(1,2) have "hd s \<noteq> CHR ''/''" by (cases s) auto
  then have "splitroot s = ([], s)" by (simp add: splitroot_def)
  with assms show ?thesis by (simp add: Path_def split_no_sep)
qed

lemma Path_plain: "s \<noteq> [] \<Longrightarrow> plain s \<Longrightarrow> Path s = PurePath [] [s]"
  by (rule Path_no_slash) (auto simp: plain_def)

lemma rfind_absent: "c \<notin> set s \<Longrightarrow> rfind s c = - 1"
  by (simp add: rfind_def)

lemma path_suffix_plain: "CHR ''.'' \<notin> set nm \<Longrightarrow> path_suffix (PurePath r (ps @ [nm])) = []"
  by (simp add: path_suffix_def path_name_def rfind_absent Let_def)

lemma with_suffix_plain:
  assumes "nm \<noteq> []" and "CHR ''.'' \<notin> set nm" and "valid_format fmt"
  shows "with_suffix (PurePath r (ps @ [nm])) (''.'' @ fmt) = Inr (PurePath r (ps @ [nm @ ''.'' @ fmt]))"
  using assms path_suffix_plain [of nm r ps]
  by (simp add: with_suffix_def path_name_def valid_format_def Let_def)

lemma join_Cons: "join sep (x # xs) = (if xs = [] then x else x @ sep @ join sep xs)"
  by (cases xs) auto

lemma join_append:
  "join sep (xs @ ys) =
     (if xs = [] then join sep ys else if ys = [] then join sep xs
      else join sep xs @ sep @ join sep ys)"
  by (induction xs) (auto simp: join_Cons)

lemma set_join: "set (join sep xs) \<subseteq> set sep \<union> \<Union> (set ` set xs)"
  by (induction xs) (auto simp: join_Cons split: if_splits)

lemma join_nonempty: "\<exists>s\<in>set xs. s \<noteq> [] \<Longrightarrow> join sep xs \<noteq> []"
  by (induction xs) (auto simp: join_Cons)

lemma plain_join: "list_all plain xs \<Longrightarrow> plain (join ''-'' xs)"
  using set_join [of "''-''" xs] by (auto simp: plain_def list_all_iff)

lemma length_zfill: "length (zfill s w) = max (length s) (nat w)"
  by (auto simp: zfill_def Let_def split: list.splits)

lemma set_zfill: "set (zfill s w) \<subseteq> insert CHR ''0'' (set s)"
  by (auto simp: zfill_def Let_def split: list.splits if_splits)

lemma plain_pad: "plain s \<Longrightarrow> plain (pad s)"
  using set_zfill [of s 4] by (auto simp: plain_def pad_def)

lemma length_pad: "4 \<le> length (pad s)"
  by (simp add: pad_def length_zfill)

lemma plain_vol: "plain (CHR ''v'' # CHR ''o'' # CHR ''l'' # CHR ''_'' # s) = plain s"
  by (simp add: plain_def)

lemma segments_shape:
  "segments ns part num fmt =
     name ns @ (if truthy (year ns) then [py_str (year ns)] else []) @
     (if truthy (vol ns) then [''vol_'' @ py_str (vol ns)] else []) @
     (if fmt = ''log'' then []
      else (if truthy (vol ns) then [''vol_'' @ py_str (vol ns)] else []) @
           (if truthy_str part then [the part] else []) @
           (if truthy_str num then [pad (the num)] else []))"
  by (simp add: segments_def Let_def)

lemma plain_segments: "plain_inputs ns part num \<Longrightarrow> list_all plain (segments ns part num fmt)"
  by (cases part; cases num) (auto simp: segments_shape plain_inputs_def plain_pad plain_vol)

lemma create_filename_plain:
  assumes "plain_inputs ns part num" and "valid_format fmt"
    and "join ''-'' (segments ns part num fmt) \<noteq> []"
  shows "create_filename ns part num fmt =
           Inr (PurePath [] [join ''-'' (segments ns part num fmt) @ ''.'' @ fmt])"
proof -
  let ?s = "join ''-'' (segments ns part num fmt)"
  have pl: "plain ?s" using assms(1) by (intro plain_join plain_segments)
  then have "Path ?s = PurePath [] [?s]" using assms(3) by (simp add: Path_plain)
  moreover have "with_suffix (PurePath [] ([] @ [?s])) (''.'' @ fmt) = Inr (PurePath [] ([] @ [?s @ ''.'' @ fmt]))"
    using pl assms(2,3) by (intro with_suffix_plain) (auto simp: plain_def)
  ultimately show ?thesis by (simp add: create_filename_def)
qed

lemma join_snoc: "join sep (xs @ [y]) = (if xs = [] then y else join sep xs @ sep @ y)"
  by (simp add: join_append)

lemma with_suffix_Inr:
  assumes "with_suffix p sfx = Inr q"
  shows "path_parts p \<noteq> [] \<and> path_root q = path_root p \<and>
         path_parts q = butlast (path_parts p) @
           [(if path_suffix p = [] then path_name p
             else take (length (path_name p) - length (path_suffix p)) (path_name p)) @ sfx]"
  using assms by (auto simp: with_suffix_def path_name_def Let_def split: if_splits)

lemma create_filename_ends:
  assumes "create_filename ns part num fmt = Inr p"
  shows "\<exists>pre. path_str p = pre @ ''.'' @ fmt"
proof -
  from assms obtain q stem where q: "path_parts p = butlast (path_parts q) @ [stem @ ''.'' @ fmt]"
    using with_suffix_Inr unfolding create_filename_def by blast
  show ?thesis by (auto simp: path_str_def q join_snoc)
qed

lemma occurrences_append_ge: "occurrences tok ys \<le> occurrences tok (xs @ ys)"
  by (induction xs) auto

lemma occurrences_at_head: "tok \<noteq> [] \<Longrightarrow> occurrences tok (tok @ ys) = 1 + occurrences tok (tl tok @ ys)"
  by (cases tok) auto

lemma occurrences_twice:
  assumes "tok \<noteq> []"
  shows "2 \<le> occurrences tok (pre @ tok @ mid @ tok @ post)"
proof -
  have "1 \<le> occurrences tok (tok @ post)" using assms by (simp add: occurrences_at_head)
  also have "\<dots> \<le> occurrences tok ((tl tok @ mid) @ tok @ post)" by (rule occurrences_append_ge)
  finally have "2 \<le> occurrences tok (tok @ mid @ tok @ post)"
    using assms by (simp add: occurrences_at_head)
  also have "\<dots> \<le> occurrences tok (pre @ tok @ mid @ tok @ post)" by (rule occurrences_append_ge)
  finally show ?thesis .
qed

subsection \<open>The volume token\<close>

text \<open>
  C1, as the code has it. For name \<open>atlas\<close>, \<open>ward1\<close>, year 1925, volume \<open>2\<close>, part
  \<open>a\<close>, index \<open>7\<close> and format \<open>jpg\<close>, \<open>create_filename\<close> returns
  \<open>atlas-ward1-1925-vol_2-vol_2-a-0007.jpg\<close>. For a format other than \<open>log\<close> that
  \<open>with_suffix\<close> accepts, with a volume present and no dot or slash in the name
  segments, year, volume, part and index, the result is one file name in which the
  volume token occurs twice in a row, separated by a hyphen.
\<close>

theorem create_filename_volume_twice:
  "create_filename \<lparr>name = [''atlas'', ''ward1''], year = PyInt 1925, vol = PyStr ''2''\<rparr>
       (Some ''a'') (Some ''7'') ''jpg'' =
     Inr (PurePath [] [''atlas-ward1-1925-vol_2-vol_2-a-0007.jpg''])
   \<and> (fmt \<noteq> ''log'' \<longrightarrow> truthy (vol ns) \<longrightarrow> valid_format fmt \<longrightarrow> plain_inputs ns part num \<longrightarrow>
        (\<exists>pre post.
           create_filename ns part num fmt =
             Inr (PurePath [] [pre @ (''vol_'' @ py_str (vol ns)) @ ''-'' @
                               (''vol_'' @ py_str (vol ns)) @ post @ ''.'' @ fmt])) \<and>
        (\<exists>p. create_filename ns part num fmt = Inr p \<and>
             2 \<le> occurrences (''vol_'' @ py_str (vol ns)) (path_str p)))"
proof (intro conjI impI)
  show "create_filename \<lparr>name = [''atlas'', ''ward1''], year = PyInt 1925, vol = PyStr ''2''\<rparr>
       (Some ''a'') (Some ''7'') ''jpg'' =
     Inr (PurePath [] [''atlas-ward1-1925-vol_2-vol_2-a-0007.jpg''])"
    by code_simp
next
  let ?V = "''vol_'' @ py_str (vol ns)"
  let ?b = "name ns @ (if truthy (year ns) then [py_str (year ns)] else [])"
  let ?t = "(if truthy_str part then [the part] else []) @ (if truthy_str num then [pad (the num)] else [])"
  let ?pre = "if ?b = [] then [] else join ''-'' ?b @ ''-''"
  let ?post = "if ?t = [] then [] else ''-'' @ join ''-'' ?t"
  assume h: "fmt \<noteq> ''log''" "truthy (vol ns)" "valid_format fmt" "plain_inputs ns part num"
  have seg: "segments ns part num fmt = ?b @ [?V, ?V] @ ?t"
    using h(1,2) by (simp add: segments_shape)
  have j: "join ''-'' (segments ns part num fmt) = ?pre @ ?V @ ''-'' @ ?V @ ?post"
    unfolding seg by (simp add: join_append)
  then have ne: "join ''-'' (segments ns part num fmt) \<noteq> []" by simp
  have cf: "create_filename ns part num fmt = Inr (PurePath [] [(?pre @ ?V @ ''-'' @ ?V @ ?post) @ ''.'' @ fmt])"
    using create_filename_plain [OF h(4) h(3) ne] unfolding j .
  show "\<exists>pre post. create_filename ns part num fmt =
             Inr (PurePath [] [pre @ (''vol_'' @ py_str (vol ns)) @ ''-'' @
                               (''vol_'' @ py_str (vol ns)) @ post @ ''.'' @ fmt])"
    by (rule exI [of _ ?pre], rule exI [of _ ?post]) (use cf in simp)
  have "2 \<le> occurrences ?V (?pre @ ?V @ ''-'' @ ?V @ (?post @ ''.'' @ fmt))"
    by (rule occurrences_twice) simp
  then show "\<exists>p. create_filename ns part num fmt = Inr p \<and> 2 \<le> occurrences ?V (path_str p)"
    using cf by (simp add: path_str_def)
qed

text \<open>The hypotheses of C1 hold for a volume of a fire-insurance atlas.\<close>

theorem create_filename_volume_twice_witness:
  "''tif'' \<noteq> ''log''
   \<and> truthy (vol \<lparr>name = [''sanborn''], year = PyInt 1911, vol = PyStr ''3''\<rparr>)
   \<and> valid_format ''tif''
   \<and> plain_inputs \<lparr>name = [''sanborn''], year = PyInt 1911, vol = PyStr ''3''\<rparr> None (Some ''12'')
   \<and> (\<exists>p. create_filename \<lparr>name = [''sanborn''], year = PyInt 1911, vol = PyStr ''3''\<rparr>
              None (Some ''12'') ''tif'' = Inr p \<and>
            2 \<le> occurrences ''vol_3'' (path_str p))"
  using create_filename_volume_twice [where fmt = "''tif''" and part = None and num = "Some ''12''"
      and ns = "\<lparr>name = [''sanborn''], year = PyInt 1911, vol = PyStr ''3''\<rparr>"]
  by (simp add: valid_format_def plain_inputs_def plain_def str_int_def str_nat.simps digit_char_def)

text \<open>
  C1 as stated fails when a segment contains a dot: \<open>with_suffix\<close> replaces all that
  follows the last dot of the joined name, so with the name \<open>st.louis\<close> the result is
  \<open>st.jpg\<close> and the volume token does not occur in it.
\<close>

theorem create_filename_volume_twice_counterexample:
  "create_filename \<lparr>name = [''st.louis''], year = PyInt 1925, vol = PyStr ''2''\<rparr>
       (Some ''a'') (Some ''7'') ''jpg'' = Inr (PurePath [] [''st.jpg''])
   \<and> path_str (PurePath [] [''st.jpg'']) = ''st.jpg''
   \<and> occurrences ''vol_2'' ''st.jpg'' = 0"
  by code_simp

subsection \<open>The log file name\<close>

text \<open>
  C5, as the code has it. For the format \<open>log\<close> the result of \<open>create_filename\<close>
  does not depend on the part and the index: two calls that differ only in them return
  the same. When the name segments, year and volume contain no dot and no slash and the
  joined name segments are not empty, the result is the name segments, the year (if
  present) and the volume token (if present, once), joined by hyphens, followed by
  \<open>.log\<close>.
\<close>

theorem create_filename_log:
  "create_filename ns part num ''log'' = create_filename ns part' num' ''log''
   \<and> (plain_inputs ns None None \<longrightarrow> join ''-'' (name ns) \<noteq> [] \<longrightarrow>
        create_filename ns part num ''log'' =
          Inr (PurePath []
                [join ''-'' (name ns @
                             (if truthy (year ns) then [py_str (year ns)] else []) @
                             (if truthy (vol ns) then [''vol_'' @ py_str (vol ns)] else [])) @
                 ''.log'']))"
proof (intro conjI impI)
  show "create_filename ns part num ''log'' = create_filename ns part' num' ''log''"
    by (simp add: create_filename_def segments_shape)
next
  let ?xs = "name ns @ (if truthy (year ns) then [py_str (year ns)] else []) @
             (if truthy (vol ns) then [''vol_'' @ py_str (vol ns)] else [])"
  assume h: "plain_inputs ns None None" "join ''-'' (name ns) \<noteq> []"
  have seg: "segments ns None None ''log'' = ?xs" by (simp add: segments_shape)
  from h(2) have "name ns \<noteq> []" by auto
  with h(2) have ne: "join ''-'' ?xs \<noteq> []" by (simp add: join_append)
  have "create_filename ns None None ''log'' = Inr (PurePath [] [join ''-'' ?xs @ ''.'' @ ''log''])"
    using create_filename_plain [OF h(1), of "''log''"] ne unfolding seg
    by (simp add: valid_format_def)
  moreover have "create_filename ns part num ''log'' = create_filename ns None None ''log''"
    by (simp add: create_filename_def segments_shape)
  ultimately show "create_filename ns part num ''log'' = Inr (PurePath [] [join ''-'' ?xs @ ''.log''])"
    by simp
qed

text \<open>The scenario of the specification: the log file of the atlas.\<close>

theorem create_filename_log_witness:
  "plain_inputs \<lparr>name = [''atlas'', ''ward1''], year = PyInt 1925, vol = PyStr ''2''\<rparr> None None
   \<and> join ''-'' (name \<lparr>name = [''atlas'', ''ward1''], year = PyInt 1925, vol = PyStr ''2''\<rparr>) \<noteq> []
   \<and> create_filename \<lparr>name = [''atlas'', ''ward1''], year = PyInt 1925, vol = PyStr ''2''\<rparr>
        (Some ''a'') (Some ''7'') ''log'' = Inr (PurePath [] [''atlas-ward1-1925-vol_2.log''])"
  using create_filename_log [where part = "Some ''a''" and num = "Some ''7''"
      and ns = "\<lparr>name = [''atlas'', ''ward1''], year = PyInt 1925, vol = PyStr ''2''\<rparr>"]
  by (simp add: plain_inputs_def plain_def str_int_def str_nat.simps digit_char_def)

text \<open>
  C5 as stated fails when a segment contains a dot: for the name \<open>no.5\<close>,
  \<open>atlas\<close> the log file is \<open>no.log\<close>, which is not the joined segments followed by
  \<open>.log\<close> and does not contain the volume token.
\<close>

theorem create_filename_log_counterexample:
  "create_filename \<lparr>name = [''no.5'', ''atlas''], year = PyInt 1925, vol = PyStr ''2''\<rparr>
       None None ''log'' = Inr (PurePath [] [''no.log''])
   \<and> path_str (PurePath [] [''no.log'']) = ''no.log''
   \<and> ''no.log'' \<noteq> ''no.5-atlas-1925-vol_2.log''
   \<and> occurrences ''vol_2'' ''no.log'' = 0"
  by code_simp

subsection \<open>The index token\<close>

text \<open>
  C6, as the code has it. For a format other than \<open>log\<close> and a non-empty index
  string, the last segment is the padded index. It has at least four characters; an
  index of four or more characters is unchanged; a shorter one is zero-filled to exactly
  four characters, the zeros going after a leading sign (\<open>+\<close> or \<open>-\<close>) and at the
  left otherwise. The padding depends on the index string alone. When the segments
  contain no dot and no slash, the file name is the joined segments, ending in the
  padded index, followed by the dot and the format.
\<close>

theorem create_filename_index_token:
  "fmt \<noteq> ''log'' \<Longrightarrow> idx \<noteq> [] \<Longrightarrow>
   segments ns part (Some idx) fmt = segments ns part None fmt @ [pad idx]
   \<and> 4 \<le> length (pad idx)
   \<and> (4 \<le> length idx \<longrightarrow> pad idx = idx)
   \<and> (length idx < 4 \<longrightarrow>
        length (pad idx) = 4 \<and>
        pad idx = (if hd idx = CHR ''+'' \<or> hd idx = CHR ''-''
                   then hd idx # replicate (4 - length idx) CHR ''0'' @ tl idx
                   else replicate (4 - length idx) CHR ''0'' @ idx))
   \<and> (plain_inputs ns part (Some idx) \<longrightarrow> valid_format fmt \<longrightarrow>
        create_filename ns part (Some idx) fmt =
          Inr (PurePath [] [join ''-'' (segments ns part None fmt @ [pad idx]) @ ''.'' @ fmt]))"
proof (intro conjI impI)
  assume h: "fmt \<noteq> ''log''" "idx \<noteq> []"
  show seg: "segments ns part (Some idx) fmt = segments ns part None fmt @ [pad idx]"
    using h by (simp add: segments_shape)
  show "4 \<le> length (pad idx)" by (rule length_pad)
  show "pad idx = idx" if "4 \<le> length idx" using that by (simp add: pad_def)
  show "length (pad idx) = 4" if "length idx < 4" using that by (simp add: pad_def length_zfill)
  show "pad idx = (if hd idx = CHR ''+'' \<or> hd idx = CHR ''-''
                   then hd idx # replicate (4 - length idx) CHR ''0'' @ tl idx
                   else replicate (4 - length idx) CHR ''0'' @ idx)" if "length idx < 4"
    using that h(2) by (cases idx) (auto simp: pad_def zfill_def Let_def)
  show "create_filename ns part (Some idx) fmt =
          Inr (PurePath [] [join ''-'' (segments ns part None fmt @ [pad idx]) @ ''.'' @ fmt])"
    if p: "plain_inputs ns part (Some idx)" and v: "valid_format fmt"
  proof -
    have "pad idx \<noteq> []" using length_pad [of idx] by auto
    then have "join ''-'' (segments ns part (Some idx) fmt) \<noteq> []"
      unfolding seg by (intro join_nonempty) auto
    from create_filename_plain [OF p v this] show ?thesis unfolding seg .
  qed
qed

text \<open>The index \<open>7\<close> becomes \<open>0007\<close>.\<close>

theorem create_filename_index_token_witness:
  "''jpg'' \<noteq> ''log'' \<and> ''7'' \<noteq> [] \<and> ''12345'' \<noteq> []
   \<and> plain_inputs \<lparr>name = [''atlas''], year = PyNone, vol = PyNone\<rparr> None (Some ''7'')
   \<and> valid_format ''jpg''
   \<and> length ''7'' < 4 \<and> pad ''7'' = ''0007''
   \<and> 4 \<le> length ''12345'' \<and> pad ''12345'' = ''12345''
   \<and> create_filename \<lparr>name = [''atlas''], year = PyNone, vol = PyNone\<rparr> None (Some ''7'') ''jpg'' =
       Inr (PurePath [] [''atlas-0007.jpg''])"
  using create_filename_index_token [where fmt = "''jpg''" and idx = "''7''" and part = None
      and ns = "\<lparr>name = [''atlas''], year = PyNone, vol = PyNone\<rparr>"]
    create_filename_index_token [where fmt = "''jpg''" and idx = "''12345''" and part = None
      and ns = "\<lparr>name = [''atlas''], year = PyNone, vol = PyNone\<rparr>"]
  by (simp add: plain_inputs_def plain_def valid_format_def segments_shape eval_nat_numeral)

text \<open>
  C6 as stated fails for a signed index and for the empty index: \<open>-7\<close> becomes
  \<open>-007\<close>, which is not \<open>-7\<close> with zeros on its left, and for the empty string no
  token is appended at all.
\<close>

theorem create_filename_index_token_counterexample:
  "segments \<lparr>name = [''atlas''], year = PyNone, vol = PyNone\<rparr> None (Some ''-7'') ''jpg'' =
     [''atlas'', ''-007'']
   \<and> ''-007'' \<noteq> replicate (4 - length ''-7'') CHR ''0'' @ ''-7''
   \<and> create_filename \<lparr>name = [''atlas''], year = PyNone, vol = PyNone\<rparr> None (Some ''-7'') ''jpg'' =
       Inr (PurePath [] [''atlas--007.jpg''])
   \<and> segments \<lparr>name = [''atlas''], year = PyNone, vol = PyNone\<rparr> None (Some '''') ''jpg'' =
       [''atlas'']
   \<and> create_filename \<lparr>name = [''atlas''], year = PyNone, vol = PyNone\<rparr> None (Some '''') ''jpg'' =
       Inr (PurePath [] [''atlas.jpg''])"
  by code_simp

subsection \<open>Extension and name prefix\<close>

text \<open>
  C9, as the code has it. Whenever \<open>create_filename\<close> returns a path, its text ends
  with the dot and the format. It raises \<open>ValueError\<close> when the format is empty or
  contains a slash. When the format is accepted, the segments contain no dot and no
  slash, and the joined name segments are not empty, the result is one file name that
  starts with the name segments joined by hyphens and ends with the dot and the format.
\<close>

theorem create_filename_extension_and_prefix:
  "(create_filename ns part num fmt = Inr p \<longrightarrow> (\<exists>pre. path_str p = pre @ ''.'' @ fmt))
   \<and> (\<not> valid_format fmt \<longrightarrow> create_filename ns part num fmt = Inl ValueError)
   \<and> (valid_format fmt \<longrightarrow> plain_inputs ns part num \<longrightarrow> join ''-'' (name ns) \<noteq> [] \<longrightarrow>
        (\<exists>rest. create_filename ns part num fmt =
                  Inr (PurePath [] [join ''-'' (name ns) @ rest @ ''.'' @ fmt])))"
proof (intro conjI impI)
  show "\<exists>pre. path_str p = pre @ ''.'' @ fmt" if "create_filename ns part num fmt = Inr p"
    using that by (rule create_filename_ends)
  show "create_filename ns part num fmt = Inl ValueError" if "\<not> valid_format fmt"
    using that by (auto simp: create_filename_def with_suffix_def valid_format_def)
  show "\<exists>rest. create_filename ns part num fmt =
                  Inr (PurePath [] [join ''-'' (name ns) @ rest @ ''.'' @ fmt])"
    if v: "valid_format fmt" and p: "plain_inputs ns part num" and n: "join ''-'' (name ns) \<noteq> []"
  proof -
    obtain ts where seg: "segments ns part num fmt = name ns @ ts"
      by (simp add: segments_shape)
    from n have nn: "name ns \<noteq> []" by auto
    let ?rest = "if ts = [] then [] else ''-'' @ join ''-'' ts"
    have j: "join ''-'' (segments ns part num fmt) = join ''-'' (name ns) @ ?rest"
      unfolding seg using nn by (simp add: join_append)
    with n have "join ''-'' (segments ns part num fmt) \<noteq> []" by simp
    from create_filename_plain [OF p v this]
    have "create_filename ns part num fmt =
            Inr (PurePath [] [join ''-'' (name ns) @ ?rest @ ''.'' @ fmt])"
      unfolding j by simp
    then show ?thesis by (rule exI [of _ ?rest])
  qed
qed

text \<open>The hypotheses of C9 hold for the atlas without a volume.\<close>

theorem create_filename_extension_and_prefix_witness:
  "valid_format ''jpg''
   \<and> plain_inputs \<lparr>name = [''atlas'', ''ward1''], year = PyInt 1925, vol = PyNone\<rparr> (Some ''a'') (Some ''7'')
   \<and> join ''-'' (name \<lparr>name = [''atlas'', ''ward1''], year = PyInt 1925, vol = PyNone\<rparr>) \<noteq> []
   \<and> (\<exists>rest. create_filename \<lparr>name = [''atlas'', ''ward1''], year = PyInt 1925, vol = PyNone\<rparr>
                 (Some ''a'') (Some ''7'') ''jpg'' =
               Inr (PurePath [] [''atlas-ward1'' @ rest @ ''.jpg'']))
   \<and> create_filename \<lparr>name = [''atlas'', ''ward1''], year = PyInt 1925, vol = PyNone\<rparr>
         (Some ''a'') (Some ''7'') ''jpg'' = Inr (PurePath [] [''atlas-ward1-1925-a-0007.jpg''])
   \<and> (\<exists>pre. path_str (PurePath [] [''atlas-ward1-1925-a-0007.jpg'']) = pre @ ''.jpg'')
   \<and> \<not> valid_format ''a/b''
   \<and> create_filename \<lparr>name = [''atlas'', ''ward1''], year = PyInt 1925, vol = PyNone\<rparr>
         (Some ''a'') (Some ''7'') ''a/b'' = Inl ValueError"
proof -
  have f: "create_filename \<lparr>name = [''atlas'', ''ward1''], year = PyInt 1925, vol = PyNone\<rparr>
         (Some ''a'') (Some ''7'') ''jpg'' = Inr (PurePath [] [''atlas-ward1-1925-a-0007.jpg''])"
    by code_simp
  show ?thesis
    using f
      create_filename_extension_and_prefix [where fmt = "''jpg''" and part = "Some ''a''"
        and num = "Some ''7''" and p = "PurePath [] [''atlas-ward1-1925-a-0007.jpg'']"
        and ns = "\<lparr>name = [''atlas'', ''ward1''], year = PyInt 1925, vol = PyNone\<rparr>"]
      create_filename_extension_and_prefix [where fmt = "''a/b''" and part = "Some ''a''"
        and num = "Some ''7''"
        and ns = "\<lparr>name = [''atlas'', ''ward1''], year = PyInt 1925, vol = PyNone\<rparr>"]
    by (simp add: plain_inputs_def plain_def valid_format_def str_int_def str_nat.simps digit_char_def)
qed

text \<open>
  C9 as stated fails on two inputs: with the name segment \<open>v1.2\<close> the text after its
  dot is replaced, so the joined name segments are no prefix of the result; and for the
  empty format no file name is returned.
\<close>

theorem create_filename_extension_and_prefix_counterexample:
  "create_filename \<lparr>name = [''sanborn'', ''v1.2''], year = PyNone, vol = PyNone\<rparr>
       None (Some ''7'') ''jpg'' = Inr (PurePath [] [''sanborn-v1.jpg''])
   \<and> path_str (PurePath [] [''sanborn-v1.jpg'']) = ''sanborn-v1.jpg''
   \<and> join ''-'' [''sanborn'', ''v1.2''] = ''sanborn-v1.2''
   \<and> take (length ''sanborn-v1.2'') ''sanborn-v1.jpg'' \<noteq> ''sanborn-v1.2''
   \<and> create_filename \<lparr>name = [''atlas''], year = PyNone, vol = PyNone\<rparr> None None '''' =
       Inl ValueError"
  by code_simp

subsection \<open>Falsy inputs\<close>

text \<open>
  C10. An empty part and an empty index are treated as an absent one, the year 0 and the
  empty volume as a null one: the result is the same, and no token is appended for them.
  In particular the empty index is not padded to \<open>0000\<close>.
\<close>

theorem create_filename_falsy_inputs:
  "create_filename ns (Some []) num fmt = create_filename ns None num fmt
   \<and> create_filename ns part (Some []) fmt = create_filename ns part None fmt
   \<and> create_filename (ns\<lparr>year := PyInt 0\<rparr>) part num fmt =
       create_filename (ns\<lparr>year := PyNone\<rparr>) part num fmt
   \<and> create_filename (ns\<lparr>vol := PyStr []\<rparr>) part num fmt =
       create_filename (ns\<lparr>vol := PyNone\<rparr>) part num fmt
   \<and> segments \<lparr>name = nm, year = PyInt 0, vol = PyStr []\<rparr> (Some []) (Some []) fmt = nm
   \<and> create_filename \<lparr>name = [''atlas''], year = PyInt 0, vol = PyStr []\<rparr>
        (Some []) (Some []) ''jpg'' = Inr (PurePath [] [''atlas.jpg''])"
proof (intro conjI)
  show "create_filename \<lparr>name = [''atlas''], year = PyInt 0, vol = PyStr []\<rparr>
        (Some []) (Some []) ''jpg'' = Inr (PurePath [] [''atlas.jpg''])"
    by code_simp
qed (simp_all add: create_filename_def segments_shape)

section \<open>Properties of the Path Resolver\<close>

lemma Path_no_slash_shape:
  assumes "CHR ''/'' \<notin> set s"
  shows "path_root (Path s) = [] \<and> length (path_parts (Path s)) \<le> 1"
proof -
  from assms have "s = [] \<or> hd s \<noteq> CHR ''/''" by (cases s) auto
  then have "splitroot s = ([], s)" by (auto simp: splitroot_def)
  with assms show ?thesis by (simp add: Path_def split_no_sep)
qed


lemma joinpath_absolute: "is_absolute p \<or> is_absolute q \<Longrightarrow> is_absolute (joinpath p q)"
  by (auto simp: joinpath_def is_absolute_def)


lemma joinpath_name: "path_parts q \<noteq> [] \<Longrightarrow> path_name (joinpath p q) = path_name q"
  by (simp add: joinpath_def path_name_def)


lemma create_filename_Inr:
  assumes "create_filename ns part num fmt = Inr filename"
  shows "path_parts filename \<noteq> []"
    and "path_root filename = path_root (Path (join ''-'' (segments ns part num fmt)))"
    and "length (path_parts filename) = length (path_parts (Path (join ''-'' (segments ns part num fmt))))"
    and "last (path_parts filename) \<noteq> []"
  using with_suffix_Inr [OF assms [unfolded create_filename_def]] by auto

text \<open>
  C8, as the code has it. For an absolute working directory and a file name returned by
  \<open>create_filename\<close>, \<open>create_filepath\<close> returns an absolute path whose final
  component is the final component of the file name. It is the whole file name when the
  joined segments contain no slash. The path is the working directory, then the output
  directory, then the file name, when the output directory and the file name are
  relative.
\<close>

theorem create_filepath_resolves:
  "is_absolute cwd \<Longrightarrow> create_filename ns part num fmt = Inr filename \<Longrightarrow>
   is_absolute (create_filepath cwd output_path filename)
   \<and> path_name (create_filepath cwd output_path filename) = path_name filename
   \<and> (CHR ''/'' \<notin> set (join ''-'' (segments ns part num fmt)) \<longrightarrow>
        path_name (create_filepath cwd output_path filename) = path_str filename)
   \<and> (\<not> is_absolute (Path output_path) \<longrightarrow> \<not> is_absolute filename \<longrightarrow>
        create_filepath cwd output_path filename =
          PurePath (path_root cwd)
            (path_parts cwd @ path_parts (Path output_path) @ path_parts filename))"
proof (intro conjI impI)
  assume a: "is_absolute cwd" and f: "create_filename ns part num fmt = Inr filename"
  note fn = create_filename_Inr [OF f]
  show "is_absolute (create_filepath cwd output_path filename)"
    using a by (simp add: create_filepath_def joinpath_absolute)
  show nm: "path_name (create_filepath cwd output_path filename) = path_name filename"
    using fn(1) by (simp add: create_filepath_def joinpath_name)
  show "path_name (create_filepath cwd output_path filename) = path_str filename"
    if "CHR ''/'' \<notin> set (join ''-'' (segments ns part num fmt))"
  proof -
    from Path_no_slash_shape [OF that] fn
    have r: "path_root filename = []" and l: "length (path_parts filename) = 1"
      by (auto simp: le_Suc_eq)
    from l obtain x where x: "path_parts filename = [x]"
      by (cases "path_parts filename") auto
    with fn(4) have "x \<noteq> []" by simp
    with r x show ?thesis unfolding nm by (simp add: path_name_def path_str_def)
  qed
  show "create_filepath cwd output_path filename =
          PurePath (path_root cwd)
            (path_parts cwd @ path_parts (Path output_path) @ path_parts filename)"
    if "\<not> is_absolute (Path output_path)" and "\<not> is_absolute filename"
    using that by (simp add: create_filepath_def joinpath_def is_absolute_def)
qed

text \<open>The atlas scenario, resolved against a home directory.\<close>

theorem create_filepath_resolves_witness:
  "is_absolute (PurePath ''/'' [''home'', ''user''])
   \<and> create_filename \<lparr>name = [''atlas'', ''ward1''], year = PyInt 1925, vol = PyStr ''2''\<rparr>
        (Some ''a'') (Some ''7'') ''jpg'' = Inr (PurePath [] [''atlas-ward1-1925-vol_2-vol_2-a-0007.jpg''])
   \<and> CHR ''/'' \<notin> set (join ''-'' (segments \<lparr>name = [''atlas'', ''ward1''], year = PyInt 1925, vol = PyStr ''2''\<rparr>
        (Some ''a'') (Some ''7'') ''jpg''))
   \<and> \<not> is_absolute (Path ''maps/atlas'')
   \<and> \<not> is_absolute (PurePath [] [''atlas-ward1-1925-vol_2-vol_2-a-0007.jpg''])
   \<and> is_absolute (create_filepath (PurePath ''/'' [''home'', ''user'']) ''maps/atlas''
        (PurePath [] [''atlas-ward1-1925-vol_2-vol_2-a-0007.jpg'']))
   \<and> path_name (create_filepath (PurePath ''/'' [''home'', ''user'']) ''maps/atlas''
        (PurePath [] [''atlas-ward1-1925-vol_2-vol_2-a-0007.jpg''])) =
       ''atlas-ward1-1925-vol_2-vol_2-a-0007.jpg''
   \<and> create_filepath (PurePath ''/'' [''home'', ''user'']) ''maps/atlas''
        (PurePath [] [''atlas-ward1-1925-vol_2-vol_2-a-0007.jpg'']) =
       PurePath ''/'' [''home'', ''user'', ''maps'', ''atlas'', ''atlas-ward1-1925-vol_2-vol_2-a-0007.jpg'']"
proof -
  have a: "is_absolute (PurePath ''/'' [''home'', ''user''])"
    by (simp add: is_absolute_def)
  have f: "create_filename \<lparr>name = [''atlas'', ''ward1''], year = PyInt 1925, vol = PyStr ''2''\<rparr>
        (Some ''a'') (Some ''7'') ''jpg'' = Inr (PurePath [] [''atlas-ward1-1925-vol_2-vol_2-a-0007.jpg''])"
    by code_simp
  have s: "CHR ''/'' \<notin> set (join ''-'' (segments \<lparr>name = [''atlas'', ''ward1''], year = PyInt 1925, vol = PyStr ''2''\<rparr>
        (Some ''a'') (Some ''7'') ''jpg''))"
    by code_simp
  have o: "Path ''maps/atlas'' = PurePath [] [''maps'', ''atlas'']"
    by code_simp
  from create_filepath_resolves [OF a f, of "''maps/atlas''"] a f s o show ?thesis
    by (simp add: path_name_def path_str_def is_absolute_def)
qed

text \<open>
  C8 as stated fails on two inputs. A volume \<open>1/2\<close> makes the file name a path of three
  components, and the final component of the resolved path is only the last of them. An
  absolute output directory discards the working directory.
\<close>

theorem create_filepath_resolves_counterexample:
  "create_filename \<lparr>name = [''atlas''], year = PyNone, vol = PyStr ''1/2''\<rparr> None (Some ''7'') ''jpg'' =
     Inr (PurePath [] [''atlas-vol_1'', ''2-vol_1'', ''2-0007.jpg''])
   \<and> path_str (PurePath [] [''atlas-vol_1'', ''2-vol_1'', ''2-0007.jpg'']) =
       ''atlas-vol_1/2-vol_1/2-0007.jpg''
   \<and> create_filepath (PurePath ''/'' [''home'', ''user'']) ''maps''
        (PurePath [] [''atlas-vol_1'', ''2-vol_1'', ''2-0007.jpg'']) =
       PurePath ''/'' [''home'', ''user'', ''maps'', ''atlas-vol_1'', ''2-vol_1'', ''2-0007.jpg'']
   \<and> path_name (PurePath ''/'' [''home'', ''user'', ''maps'', ''atlas-vol_1'', ''2-vol_1'', ''2-0007.jpg'']) =
       ''2-0007.jpg''
   \<and> ''2-0007.jpg'' \<noteq> ''atlas-vol_1/2-vol_1/2-0007.jpg''
   \<and> create_filepath (PurePath ''/'' [''home'', ''user'']) ''/data/maps'' (PurePath [] [''atlas.jpg'']) =
       PurePath ''/'' [''data'', ''maps'', ''atlas.jpg'']"
  by code_simp

section \<open>Properties of the Retrieval Loop\<close>

text \<open>Both loops run a list of jobs in order and stop at the first exception.\<close>

lemma retrieve_indices_append:
  "retrieve_indices io cwd parser config fsegs ps (xs @ ys) tr =
     (case retrieve_indices io cwd parser config fsegs ps xs tr of
        (tr', Some e) \<Rightarrow> (tr', Some e)
      | (tr', None) \<Rightarrow> retrieve_indices io cwd parser config fsegs ps ys tr')"
  by (induction xs arbitrary: tr) (auto split: prod.splits option.splits)


lemma retrieve_files_append:
  "retrieve_files io cwd parser config fsegs (xs @ ys) tr =
     (case retrieve_files io cwd parser config fsegs xs tr of
        (tr', Some e) \<Rightarrow> (tr', Some e)
      | (tr', None) \<Rightarrow> retrieve_files io cwd parser config fsegs ys tr')"
  by (induction xs arbitrary: tr) (auto split: prod.splits option.splits)


lemma retrieve_one_get_raises:
  assumes "create_url parser config (seg_gmd ps) (seg_id_prefix ps) (index_token ps i) = Inr url"
    and "get io url = Inl e"
  shows "retrieve_one io cwd parser config fsegs ps i tr = (tr @ [Get url], Some e)"
  using assms by (simp add: retrieve_one_def Let_def)


lemma retrieve_one_response:
  assumes "create_url parser config (seg_gmd ps) (seg_id_prefix ps) (index_token ps i) = Inr url"
    and "get io url = Inr resp"
    and "create_filename fsegs (seg_part ps) (Some (index_token ps i)) (format parser) = Inr filename"
  shows "retrieve_one io cwd parser config fsegs ps i tr =
           (tr @ [Get url, Info (''Target URL: '' @ url),
                  Info (''Image renamed to '' @
                        path_name (create_filepath cwd (output_arg parser) filename)),
                  Write (create_filepath cwd (output_arg parser) filename) resp],
            write_file_response_chunked io (create_filepath cwd (output_arg parser) filename) resp)"
  using assms by (simp add: retrieve_one_def Let_def)

text \<open>
  C2, as the code has it. Suppose the segments before \<open>ps\<close> and the indices of
  \<open>ps\<close> before \<open>i\<close> have been retrieved without an exception, and the request for
  index \<open>i\<close> raises. Then the run ends with that exception, and the request is the
  last event of its trace: whatever indices and segments follow, no URL is built, no
  request is made and no file is written for them. A request that returns a response
  raises nothing, whatever its status code: the pass logs the URL and the file name and
  hands the response to the writer, and the loop goes on unless the writer raises.
\<close>

theorem fetch_exception_stops_run:
  "create_url parser config (seg_gmd ps) (seg_id_prefix ps) (index_token ps i) = Inr url \<Longrightarrow>
   (retrieve_files io cwd parser config fsegs segs1 tr = (tr1, None) \<longrightarrow>
    py_range (start (seg_index ps)) (stop (seg_index ps)) = is1 @ i # is2 \<longrightarrow>
    retrieve_indices io cwd parser config fsegs ps is1 tr1 = (tr2, None) \<longrightarrow>
    get io url = Inl e \<longrightarrow>
    retrieve_files io cwd parser config fsegs (segs1 @ ps # segs2) tr = (tr2 @ [Get url], Some e))
   \<and> (get io url = Inr resp \<longrightarrow>
       create_filename fsegs (seg_part ps) (Some (index_token ps i)) (format parser) = Inr filename \<longrightarrow>
       retrieve_one io cwd parser config fsegs ps i tr =
         (tr @ [Get url, Info (''Target URL: '' @ url),
                Info (''Image renamed to '' @
                      path_name (create_filepath cwd (output_arg parser) filename)),
                Write (create_filepath cwd (output_arg parser) filename) resp],
          write_file_response_chunked io (create_filepath cwd (output_arg parser) filename) resp))"
proof (intro conjI impI)
  assume u: "create_url parser config (seg_gmd ps) (seg_id_prefix ps) (index_token ps i) = Inr url"
  show "retrieve_files io cwd parser config fsegs (segs1 @ ps # segs2) tr = (tr2 @ [Get url], Some e)"
    if a: "retrieve_files io cwd parser config fsegs segs1 tr = (tr1, None)"
      and r: "py_range (start (seg_index ps)) (stop (seg_index ps)) = is1 @ i # is2"
      and b: "retrieve_indices io cwd parser config fsegs ps is1 tr1 = (tr2, None)"
      and g: "get io url = Inl e"
  proof -
    have "retrieve_one io cwd parser config fsegs ps i tr2 = (tr2 @ [Get url], Some e)"
      using u g by (rule retrieve_one_get_raises)
    then have "retrieve_indices io cwd parser config fsegs ps (is1 @ i # is2) tr1 =
                 (tr2 @ [Get url], Some e)"
      using b by (simp add: retrieve_indices_append)
    then have "retrieve_files io cwd parser config fsegs (ps # segs2) tr1 = (tr2 @ [Get url], Some e)"
      using r by simp
    then show ?thesis using a by (simp add: retrieve_files_append)
  qed
  show "retrieve_one io cwd parser config fsegs ps i tr =
         (tr @ [Get url, Info (''Target URL: '' @ url),
                Info (''Image renamed to '' @
                      path_name (create_filepath cwd (output_arg parser) filename)),
                Write (create_filepath cwd (output_arg parser) filename) resp],
          write_file_response_chunked io (create_filepath cwd (output_arg parser) filename) resp)"
    if "get io url = Inr resp"
      and "create_filename fsegs (seg_part ps) (Some (index_token ps i)) (format parser) = Inr filename"
    using u that by (rule retrieve_one_response)
qed

text \<open>
  A run of three segments in which the network fails on the request for index 2 of the
  first: index 1 is written, the failing request is the last event.
\<close>

theorem fetch_exception_stops_run_witness:
  "create_url sample_parser sample_config (seg_gmd sample_segment) (seg_id_prefix sample_segment)
       (index_token sample_segment 2) =
     Inr ''https://tile.loc.gov/image-services/iiif/service:g3290:ct002/full/pct:100/0/default.jpg''
   \<and> retrieve_files network_down_at_2 (PurePath ''/'' [''home'', ''user'']) sample_parser sample_config
        sample_names [] [] = ([], None)
   \<and> py_range (start (seg_index sample_segment)) (stop (seg_index sample_segment)) = [1] @ 2 # []
   \<and> retrieve_indices network_down_at_2 (PurePath ''/'' [''home'', ''user'']) sample_parser sample_config
        sample_names sample_segment [1] [] =
       ([Get ''https://tile.loc.gov/image-services/iiif/service:g3290:ct001/full/pct:100/0/default.jpg'',
         Info ''Target URL: https://tile.loc.gov/image-services/iiif/service:g3290:ct001/full/pct:100/0/default.jpg'',
         Info ''Image renamed to atlas-1925-0001.jpg'',
         Write (PurePath ''/'' [''home'', ''user'', ''maps'', ''atlas-1925-0001.jpg''])
               \<lparr>status_code = 200, content = ''JFIF''\<rparr>], None)
   \<and> get network_down_at_2
        ''https://tile.loc.gov/image-services/iiif/service:g3290:ct002/full/pct:100/0/default.jpg'' =
       Inl RequestException
   \<and> retrieve_files network_down_at_2 (PurePath ''/'' [''home'', ''user'']) sample_parser sample_config
        sample_names ([] @ sample_segment # [sample_segment, sample_segment]) [] =
       ([Get ''https://tile.loc.gov/image-services/iiif/service:g3290:ct001/full/pct:100/0/default.jpg'',
         Info ''Target URL: https://tile.loc.gov/image-services/iiif/service:g3290:ct001/full/pct:100/0/default.jpg'',
         Info ''Image renamed to atlas-1925-0001.jpg'',
         Write (PurePath ''/'' [''home'', ''user'', ''maps'', ''atlas-1925-0001.jpg''])
               \<lparr>status_code = 200, content = ''JFIF''\<rparr>] @
        [Get ''https://tile.loc.gov/image-services/iiif/service:g3290:ct002/full/pct:100/0/default.jpg''],
        Some RequestException)
   \<and> create_url sample_parser sample_config (seg_gmd sample_segment) (seg_id_prefix sample_segment)
       (index_token sample_segment 1) =
     Inr ''https://tile.loc.gov/image-services/iiif/service:g3290:ct001/full/pct:100/0/default.jpg''
   \<and> get network_down_at_2
        ''https://tile.loc.gov/image-services/iiif/service:g3290:ct001/full/pct:100/0/default.jpg'' =
       Inr \<lparr>status_code = 200, content = ''JFIF''\<rparr>
   \<and> create_filename sample_names (seg_part sample_segment) (Some (index_token sample_segment 1))
        (format sample_parser) = Inr (PurePath [] [''atlas-1925-0001.jpg''])
   \<and> retrieve_one network_down_at_2 (PurePath ''/'' [''home'', ''user'']) sample_parser sample_config
        sample_names sample_segment 1 [] =
       ([Get ''https://tile.loc.gov/image-services/iiif/service:g3290:ct001/full/pct:100/0/default.jpg'',
         Info ''Target URL: https://tile.loc.gov/image-services/iiif/service:g3290:ct001/full/pct:100/0/default.jpg'',
         Info ''Image renamed to atlas-1925-0001.jpg'',
         Write (PurePath ''/'' [''home'', ''user'', ''maps'', ''atlas-1925-0001.jpg''])
               \<lparr>status_code = 200, content = ''JFIF''\<rparr>], None)"
proof -
  let ?u1 = "''https://tile.loc.gov/image-services/iiif/service:g3290:ct001/full/pct:100/0/default.jpg''"
  let ?cwd = "PurePath ''/'' [''home'', ''user'']"
  have u1: "create_url sample_parser sample_config (seg_gmd sample_segment) (seg_id_prefix sample_segment)
       (index_token sample_segment 1) = Inr ?u1"
    by code_simp
  have g1: "get network_down_at_2 ?u1 = Inr \<lparr>status_code = 200, content = ''JFIF''\<rparr>"
    by (simp add: network_down_at_2_def)
  have f1: "create_filename sample_names (seg_part sample_segment) (Some (index_token sample_segment 1))
        (format sample_parser) = Inr (PurePath [] [''atlas-1925-0001.jpg''])"
    by code_simp
  have p1: "create_filepath ?cwd (output_arg sample_parser) (PurePath [] [''atlas-1925-0001.jpg'']) =
        PurePath ''/'' [''home'', ''user'', ''maps'', ''atlas-1925-0001.jpg'']"
    by code_simp
  have w1: "write_file_response_chunked network_down_at_2
              (PurePath ''/'' [''home'', ''user'', ''maps'', ''atlas-1925-0001.jpg''])
              \<lparr>status_code = 200, content = ''JFIF''\<rparr> = None"
    by (simp add: network_down_at_2_def)
  note second = fetch_exception_stops_run [OF u1, THEN conjunct2, rule_format, OF g1 f1,
      of ?cwd "[]", unfolded p1 w1]
  let ?u2 = "''https://tile.loc.gov/image-services/iiif/service:g3290:ct002/full/pct:100/0/default.jpg''"
  let ?tr2 = "[Get ''https://tile.loc.gov/image-services/iiif/service:g3290:ct001/full/pct:100/0/default.jpg'',
         Info ''Target URL: https://tile.loc.gov/image-services/iiif/service:g3290:ct001/full/pct:100/0/default.jpg'',
         Info ''Image renamed to atlas-1925-0001.jpg'',
         Write (PurePath ''/'' [''home'', ''user'', ''maps'', ''atlas-1925-0001.jpg''])
               \<lparr>status_code = 200, content = ''JFIF''\<rparr>]"
  have u: "create_url sample_parser sample_config (seg_gmd sample_segment) (seg_id_prefix sample_segment)
       (index_token sample_segment 2) = Inr ?u2"
    by code_simp
  have a: "retrieve_files network_down_at_2 (PurePath ''/'' [''home'', ''user'']) sample_parser sample_config
        sample_names [] [] = ([], None)"
    by simp
  have r: "py_range (start (seg_index sample_segment)) (stop (seg_index sample_segment)) = [1] @ 2 # []"
    by code_simp
  have b: "retrieve_indices network_down_at_2 (PurePath ''/'' [''home'', ''user'']) sample_parser sample_config
        sample_names sample_segment [1] [] = (?tr2, None)"
    by code_simp
  have g: "get network_down_at_2 ?u2 = Inl RequestException"
    by (simp add: network_down_at_2_def)
  from fetch_exception_stops_run [OF u, THEN conjunct1, rule_format, OF a r b g,
      of "[sample_segment, sample_segment]"]
  show ?thesis using u a r b g u1 g1 f1 second by (simp add: path_name_def)
qed

text \<open>
  C2 as stated fails: when the server answers 404 to every request and the writer stores
  what it is given, the run does not stop at index 1. It requests index 2 as well,
  writes both files and ends without an exception.
\<close>

theorem non_success_status_counterexample:
  "\<not> is_success not_found
   \<and> get server_404 ''https://tile.loc.gov/image-services/iiif/service:g3290:ct001/full/pct:100/0/default.jpg'' =
       Inr not_found
   \<and> retrieve_files server_404 (PurePath ''/'' [''home'', ''user'']) sample_parser sample_config
        sample_names [sample_segment] [] =
       ([Get ''https://tile.loc.gov/image-services/iiif/service:g3290:ct001/full/pct:100/0/default.jpg'',
         Info ''Target URL: https://tile.loc.gov/image-services/iiif/service:g3290:ct001/full/pct:100/0/default.jpg'',
         Info ''Image renamed to atlas-1925-0001.jpg'',
         Write (PurePath ''/'' [''home'', ''user'', ''maps'', ''atlas-1925-0001.jpg'']) not_found,
         Get ''https://tile.loc.gov/image-services/iiif/service:g3290:ct002/full/pct:100/0/default.jpg'',
         Info ''Target URL: https://tile.loc.gov/image-services/iiif/service:g3290:ct002/full/pct:100/0/default.jpg'',
         Info ''Image renamed to atlas-1925-0002.jpg'',
         Write (PurePath ''/'' [''home'', ''user'', ''maps'', ''atlas-1925-0002.jpg'']) not_found],
        None)"
  by code_simp

end
